theory Spec2Isabelle
  imports Complex_Main "HOL-Library.Multiset"
begin

section \<open>Python values used by main.py\<close>

text \<open>
  A Python \<open>str\<close> is a sequence of Unicode code points and \<open>len\<close> counts code points,
  so a string is modelled as a list of code points. The literals of main.py are written
  out as code-point lists (most of them are Cyrillic).
\<close>

type_synonym pystr = "nat list"

text \<open>The characters that \<open>str.strip()\<close> removes when called without argument.\<close>

definition is_space :: "nat \<Rightarrow> bool" where
  "is_space c \<longleftrightarrow>
     (9 \<le> c \<and> c \<le> 13) \<or> (28 \<le> c \<and> c \<le> 32) \<or> c = 133 \<or> c = 160 \<or> c = 5760 \<or>
     (8192 \<le> c \<and> c \<le> 8202) \<or> c = 8232 \<or> c = 8233 \<or> c = 8239 \<or> c = 8287 \<or> c = 12288"

definition strip :: "pystr \<Rightarrow> pystr" where
  "strip s = rev (dropWhile is_space (rev (dropWhile is_space s)))"

text \<open>\<open>str(n)\<close> for an integer: decimal digits, with a leading minus sign below zero.\<close>

fun str_nat :: "nat \<Rightarrow> pystr" where
  "str_nat n = (if n < 10 then [48 + n] else str_nat (n div 10) @ [48 + n mod 10])"

declare str_nat.simps [simp del]

definition str_int :: "int \<Rightarrow> pystr" where
  "str_int i = (if i < 0 then 45 # str_nat (nat (- i)) else str_nat (nat i))"

text \<open>\<open>sep.join(parts)\<close>.\<close>

fun join :: "pystr \<Rightarrow> pystr list \<Rightarrow> pystr" where
  "join sep [] = []"
| "join sep [p] = p"
| "join sep (p # q # ps) = p @ sep @ join sep (q # ps)"

text \<open>\<open>s.split(sep)\<close> for a separator of one character: never empty, one more part than
  there are separators.\<close>

fun split_on :: "nat \<Rightarrow> pystr \<Rightarrow> pystr list" where
  "split_on sep [] = [[]]"
| "split_on sep (c # cs) =
     (if c = sep then [] # split_on sep cs
      else (case split_on sep cs of
              [] \<Rightarrow> [[c]]
            | p # ps \<Rightarrow> (c # p) # ps))"

text \<open>\<open>s.startswith(p)\<close>.\<close>

definition startswith :: "pystr \<Rightarrow> pystr \<Rightarrow> bool" where
  "startswith s p \<longleftrightarrow> take (length p) s = p"

subsection \<open>Floats\<close>

text \<open>
  A finite double is a rational number. The result of a floating-point operation is the
  double nearest to the exact result, ties going to the even significand (53 bits, the
  least exponent that of the subnormal numbers), or an infinity once the rounded result
  reaches 2 to the power 1024.
\<close>

datatype pyfloat = Finite rat | PosInf | NegInf

definition round_half_even :: "rat \<Rightarrow> int" where
  "round_half_even x =
     (let f = \<lfloor>x\<rfloor>; d = x - of_int f in
      if d < 1 / 2 then f else if 1 / 2 < d then f + 1 else if even f then f else f + 1)"

fun bit_length :: "nat \<Rightarrow> nat" where
  "bit_length n = (if n = 0 then 0 else Suc (bit_length (n div 2)))"

declare bit_length.simps [simp del]

definition pow2 :: "int \<Rightarrow> rat" where
  "pow2 k = (if 0 \<le> k then 2 ^ nat k else 1 / 2 ^ nat (- k))"

text \<open>For a positive x, the exponent k with \<open>pow2 k \<le> x < pow2 (k + 1)\<close>.\<close>

definition ilog2 :: "rat \<Rightarrow> int" where
  "ilog2 x =
     (if 1 \<le> x then int (bit_length (nat \<lfloor>x\<rfloor>)) - 1
      else - int (bit_length (nat (\<lceil>1 / x\<rceil> - 1))))"

definition binary64 :: "rat \<Rightarrow> pyfloat" where
  "binary64 x =
     (if x = 0 then Finite 0
      else
        let q = max (ilog2 \<bar>x\<bar> - 52) (- 1074);
            y = of_int (round_half_even (\<bar>x\<bar> / pow2 q)) * pow2 q
        in if pow2 1024 \<le> y then (if x < 0 then NegInf else PosInf)
           else Finite (if x < 0 then - y else y))"

text \<open>\<open>p * 100\<close> for a float p.\<close>

definition fmul100 :: "rat \<Rightarrow> pyfloat" where
  "fmul100 p = binary64 (p * 100)"

text \<open>
  The format \<open>:.1f\<close>: the decimal with one digit after the point that is nearest to
  the exact value of the float, ties going to the even digit; a minus sign for a
  negative value, also when the digits are all zero.
\<close>

fun fmt1f :: "pyfloat \<Rightarrow> pystr" where
  "fmt1f (Finite x) =
     (let t = nat (round_half_even (\<bar>x\<bar> * 10)) in
      (if x < 0 then [45] else []) @ str_nat (t div 10) @ [46] @ str_nat (t mod 10))"
| "fmt1f PosInf = [105, 110, 102]"
| "fmt1f NegInf = [45, 105, 110, 102]"

subsection \<open>Exceptions\<close>

text \<open>
  The exception classes that main.py distinguishes. \<open>KeyError\<close> and \<open>IndexError\<close> are
  subclasses of \<open>LookupError\<close>; \<open>OtherError\<close> stands for every class that is neither an
  \<open>AttributeError\<close> nor a \<open>LookupError\<close> (\<open>TypeError\<close>, \<open>OSError\<close>, ...). An exception
  carries the text that \<open>str(e)\<close> gives.
\<close>

datatype exn_class = AttributeError | LookupError | KeyError | IndexError | OtherError

datatype exn = Exn (exn_cls: exn_class) (exn_str: pystr)

fun is_lookup_error :: "exn_class \<Rightarrow> bool" where
  "is_lookup_error LookupError = True"
| "is_lookup_error KeyError = True"
| "is_lookup_error IndexError = True"
| "is_lookup_error _ = False"

text \<open>\<open>xs[i]\<close> for a non-negative index: IndexError out of range.\<close>

definition msg_index_out_of_range :: pystr where
  \<comment> \<open>"list index out of range"\<close>
  "msg_index_out_of_range =
     [108, 105, 115, 116, 32, 105, 110, 100, 101, 120, 32, 111, 117, 116, 32, 111, 102, 32,
      114, 97, 110, 103, 101]"

definition item :: "'a list \<Rightarrow> nat \<Rightarrow> exn + 'a" where
  "item xs i = (if i < length xs then Inr (xs ! i) else Inl (Exn IndexError msg_index_out_of_range))"

section \<open>get_country_name (main.py, lines 24-43)\<close>

text \<open>
  \<open>pycountry.countries.get(alpha_2=code)\<close> is a call into the country registry, which is
  not part of the repository: its outcome is a parameter. It returns a country record,
  returns \<open>None\<close>, or raises.
\<close>

record country =
  name :: pystr

datatype lookup = Returns "country option" | Raises exn

type_synonym registry = "pystr \<Rightarrow> lookup"

definition unknown_country :: "pystr \<Rightarrow> pystr" where
  \<comment> \<open>the f-string of line 43: the Russian for "Unknown country (", the code, ")"\<close>
  "unknown_country country_code =
     [1053, 1077, 1080, 1079, 1074, 1077, 1089, 1090, 1085, 1072, 1103, 32,
      1089, 1090, 1088, 1072, 1085, 1072, 32, 40] @ country_code @ [41]"

text \<open>
  \<open>None.name\<close> raises AttributeError, which the \<open>except\<close> clause catches together with
  every LookupError; an exception of another class leaves the function.
\<close>

definition get_country_name :: "registry \<Rightarrow> pystr \<Rightarrow> exn + pystr" where
  "get_country_name countries_get country_code =
     (case countries_get country_code of
        Returns (Some c) \<Rightarrow> Inr (name c)
      | Returns None \<Rightarrow> Inr (unknown_country country_code)
      | Raises e \<Rightarrow>
          if exn_cls e = AttributeError \<or> is_lookup_error (exn_cls e)
          then Inr (unknown_country country_code)
          else Inl e)"

text \<open>Whether one string occurs in another as a contiguous piece (Python's \<open>t in s\<close>).\<close>

fun contains :: "pystr \<Rightarrow> pystr \<Rightarrow> bool" where
  "contains [] t = (t = [])"
| "contains (c # cs) t = (startswith (c # cs) t \<or> contains cs t)"

section \<open>The data of the handlers\<close>

text \<open>
  One element of the service's \<open>country\<close> array: a dict with the keys \<open>country_id\<close>
  and \<open>probability\<close>. A probability is a float, finite and not the negative zero (NaN,
  the infinities and -0.0 are not modelled); such floats are rational numbers and are
  compared as such, which is all \<open>sorted\<close> uses.
\<close>

record guess =
  country_id :: pystr
  probability :: rat

text \<open>\<open>message.chat.id\<close> and \<open>message.text\<close> (field \<open>msg_text\<close>); \<open>call.id\<close>, \<open>call.message.chat.id\<close>,
  \<open>call.data\<close>.\<close>

record message =
  chat_id :: int
  message_id :: int
  msg_text :: pystr

record callback_query =
  call_id :: pystr
  message_chat_id :: int
  data :: pystr

text \<open>What \<open>requests.get\<close>, \<open>raise_for_status\<close> and \<open>response.json()\<close> (lines 122-130)
  come to: an exception of \<open>requests.exceptions.RequestException\<close>, any other exception,
  or the decoded body, of which only the \<open>country\<close> field is read (None when the field
  is absent).\<close>

datatype api_outcome =
    RequestException pystr
  | OtherException pystr
  | JsonBody "guess list option"

text \<open>
  The figure that the pyplot calls of create_bar_chart build, and the buffer. A bar has
  the category it stands on and its height; a text belongs to the bar at whose centre it
  is placed (\<open>ann_bar\<close>, the bar's index), at the height \<open>ann_y\<close>.
\<close>

record bar =
  bar_label :: pystr
  bar_height :: pyfloat

record annotation =
  ann_bar :: nat
  ann_y :: pyfloat
  ann_text :: pystr

record figure =
  figsize :: "nat \<times> nat"
  bars :: "bar list"
  color :: pystr
  title :: pystr
  ylabel :: pystr
  xticks_rotation :: nat
  annotations :: "annotation list"

record bytesio =
  contents :: "nat list"
  pos :: nat

text \<open>
  The collaborators outside the repository: the country registry, the prediction service
  (the outcome of the request for a name), and pyplot. \<open>savefig_png\<close> is the outcome of
  the pyplot calls of lines 62-85 for a figure: the PNG bytes that \<open>savefig\<close> writes,
  or the exception that leaves them (\<open>savefig\<close> raises, for one, when a label holds
  dollar signs that it cannot parse as mathtext). Sending through the bot is taken to
  succeed.
\<close>

record env =
  countries_get :: registry
  nationalize :: "pystr \<Rightarrow> api_outcome"
  savefig_png :: "figure \<Rightarrow> exn + nat list"

record button =
  button_text :: pystr
  callback_data :: pystr

type_synonym markup = "button list"

text \<open>
  What a handler does to the outside, in order: the GET request (url, name, api key,
  timeout), \<open>bot.reply_to\<close>, \<open>bot.send_message\<close> with its markup,
  \<open>bot.answer_callback_query\<close> (id, text, show_alert) and \<open>bot.send_photo\<close>.
\<close>

datatype event =
    ApiGet pystr pystr pystr nat
  | ReplyTo message pystr
  | SendMessage int pystr markup
  | AnswerCallbackQuery pystr pystr bool
  | SendPhoto int bytesio pystr

fun reply_markup :: "event \<Rightarrow> markup option" where
  "reply_markup (SendMessage c t m) = Some m"
| "reply_markup _ = None"

fun is_api_request :: "event \<Rightarrow> bool" where
  "is_api_request (ApiGet u n k t) = True"
| "is_api_request _ = False"

fun is_new_message :: "event \<Rightarrow> bool" where
  "is_new_message (ReplyTo m t) = True"
| "is_new_message (SendMessage c t m) = True"
| "is_new_message (SendPhoto c p t) = True"
| "is_new_message _ = False"

text \<open>\<open>request_cache\<close> (line 22).\<close>

type_synonym cache = "pystr \<rightharpoonup> guess list"

section \<open>create_bar_chart (lines 46-89)\<close>

text \<open>Line 58: the comprehension stops at the first exception.\<close>

fun country_names :: "registry \<Rightarrow> guess list \<Rightarrow> exn + pystr list" where
  "country_names reg [] = Inr []"
| "country_names reg (c # cs) =
     (case get_country_name reg (country_id c) of
        Inl e \<Rightarrow> Inl e
      | Inr n \<Rightarrow> (case country_names reg cs of
                   Inl e \<Rightarrow> Inl e
                 | Inr ns \<Rightarrow> Inr (n # ns)))"

definition chart_title :: pystr where
  "chart_title =
     [1042, 1077, 1088, 1086, 1103, 1090, 1085, 1086, 1089, 1090, 1100, 32, 1101, 1090, 1085,
      1080, 1095, 1085, 1086, 1089, 1090, 1077, 1081, 47, 1085, 1072, 1094, 1080, 1086, 1085,
      1072, 1083, 1100, 1085, 1086, 1089, 1090, 1077, 1081]"

definition chart_ylabel :: pystr where
  "chart_ylabel =
     [1042, 1077, 1088, 1086, 1103, 1090, 1085, 1086, 1089, 1090, 1100, 32, 40, 37, 41]"

definition skyblue :: pystr where
  "skyblue = [115, 107, 121, 98, 108, 117, 101]"

text \<open>Lines 73-81: one text per bar, at the bar's height, reading \<open>f'{height:.1f}%'\<close>.\<close>

definition bar_texts :: "bar list \<Rightarrow> annotation list" where
  "bar_texts bs =
     map (\<lambda>(i, b). \<lparr>ann_bar = i, ann_y = bar_height b,
                     ann_text = fmt1f (bar_height b) @ [37]\<rparr>)
         (zip [0 ..< length bs] bs)"

text \<open>Lines 62-81.\<close>

definition draw :: "pystr list \<Rightarrow> pyfloat list \<Rightarrow> figure" where
  "draw names probabilities =
     (let bs = map (\<lambda>(n, h). \<lparr>bar_label = n, bar_height = h\<rparr>) (zip names probabilities)
      in \<lparr>figsize = (10, 5), bars = bs, color = skyblue, title = chart_title,
          ylabel = chart_ylabel, xticks_rotation = 45, annotations = bar_texts bs\<rparr>)"

text \<open>Lines 84-87: \<open>savefig\<close> writes the image at the cursor of the fresh buffer,
  \<open>seek(0)\<close> moves the cursor back. An exception of the resolver (line 58) or of
  pyplot leaves create_bar_chart.\<close>

definition bytesio_write :: "bytesio \<Rightarrow> nat list \<Rightarrow> bytesio" where
  "bytesio_write buf bs =
     \<lparr>contents = take (pos buf) (contents buf) @ bs @ drop (pos buf + length bs) (contents buf),
      pos = pos buf + length bs\<rparr>"

definition seek :: "bytesio \<Rightarrow> nat \<Rightarrow> bytesio" where
  "seek buf n = buf\<lparr>pos := n\<rparr>"

definition create_bar_chart :: "env \<Rightarrow> guess list \<Rightarrow> exn + bytesio" where
  "create_bar_chart e countries_data =
     (case country_names (countries_get e) countries_data of
        Inl ex \<Rightarrow> Inl ex
      | Inr names \<Rightarrow>
          let probabilities = map (\<lambda>c. fmul100 (probability c)) countries_data;
              fig = draw names probabilities;
              buf = \<lparr>contents = [], pos = 0\<rparr>
          in (case savefig_png e fig of
                Inl ex \<Rightarrow> Inl ex
              | Inr png \<Rightarrow> Inr (seek (bytesio_write buf png) 0)))"

section \<open>send_welcome (lines 92-105)\<close>

definition welcome_message :: pystr where
  "welcome_message =
     [128075, 32, 1055, 1088, 1080, 1074, 1077, 1090, 33, 32, 1054, 1090, 1087, 1088, 1072,
      1074, 1100, 32, 1084, 1085, 1077, 32, 1080, 1084, 1103, 47, 1092, 1072, 1084, 1080,
      1083, 1080, 1102, 44, 32, 1080, 32, 1103, 32, 1086, 1087, 1088, 1077, 1076, 1077, 1083,
      1102, 32, 53, 32, 1085, 1072, 1080, 1073, 1086, 1083, 1077, 1077, 32, 1074, 1077, 1088,
      1086, 1103, 1090, 1085, 1099, 1093, 32, 1101, 1090, 1085, 1080, 1095, 1085, 1086, 1089,
      1090, 1077, 1081, 47, 1085, 1072, 1094, 1080, 1086, 1085, 1072, 1083, 1100, 1085, 1086,
      1089, 1090, 1077, 1081, 46, 10, 10, 1055, 1088, 1080, 1084, 1077, 1088, 1099, 32, 1080,
      1084, 1077, 1085, 32, 1076, 1083, 1103, 32, 1090, 1077, 1089, 1090, 1072, 58, 10, 8226,
      32, 1040, 1083, 1077, 1082, 1089, 1072, 1085, 1076, 1088, 10, 8226, 32, 84, 114, 117,
      109, 112, 10, 8226, 32, 75, 105, 109, 10, 8226, 32, 77, 111, 104, 97, 109, 109, 101,
      100]"

definition send_welcome :: "cache \<Rightarrow> message \<Rightarrow> cache \<times> event list" where
  "send_welcome c m = (c, [ReplyTo m welcome_message])"

section \<open>handle_name (lines 108-174)\<close>

definition api_url :: pystr where
  \<comment> \<open>"https://api.nationalize.io/"\<close>
  "api_url =
     [104, 116, 116, 112, 115, 58, 47, 47, 97, 112, 105, 46, 110, 97, 116, 105, 111, 110, 97,
      108, 105, 122, 101, 46, 105, 111, 47]"

definition API_KEY :: pystr where
  "API_KEY = []"

definition msg_too_short :: pystr where
  \<comment> \<open>line 117\<close>
  "msg_too_short =
     [10060, 32, 1048, 1084, 1103, 40, 1060, 1072, 1084, 1080, 1083, 1080, 1103, 41, 32, 1076,
      1086, 1083, 1078, 1085, 1086, 32, 1089, 1086, 1076, 1077, 1088, 1078, 1072, 1090, 1100,
      32, 1084, 1080, 1085, 1080, 1084, 1091, 1084, 32, 50, 32, 1089, 1080, 1084, 1074, 1086,
      1083, 1072]"

definition msg_no_prediction :: pystr where
  \<comment> \<open>line 134\<close>
  "msg_no_prediction =
     [128542, 32, 1053, 1077, 32, 1091, 1076, 1072, 1083, 1086, 1089, 1100, 32, 1086, 1087,
      1088, 1077, 1076, 1077, 1083, 1080, 1090, 1100, 32, 1101, 1090, 1085, 1080, 1095, 1085,
      1086, 1089, 1090, 1100, 47, 1085, 1072, 1094, 1080, 1086, 1085, 1072, 1083, 1100, 1085,
      1086, 1089, 1090, 1100, 46, 32, 1042, 1086, 1079, 1084, 1086, 1078, 1085, 1086, 44, 32,
      1080, 1084, 1103, 47, 1092, 1072, 1084, 1080, 1083, 1080, 1103, 32, 1087, 1088, 1086,
      1089, 1090, 1086, 32, 1086, 1095, 1077, 1085, 1100, 32, 1088, 1077, 1076, 1082, 1072,
      1103, 33]"

definition header :: "pystr \<Rightarrow> pystr" where
  \<comment> \<open>the f-string of line 165, up to and with the newline\<close>
  "header nm =
     [127919, 32, 1058, 1086, 1087, 45, 53, 32, 1101, 1090, 1085, 1080, 1095, 1085, 1086, 1089,
      1090, 1077, 1081, 47, 1085, 1072, 1094, 1080, 1086, 1085, 1072, 1083, 1100, 1085, 1086,
      1089, 1090, 1077, 1081, 32, 1076, 1083, 1103, 32] @ nm @ [58, 10]"

definition button_label :: pystr where
  \<comment> \<open>line 157\<close>
  "button_label =
     [128202, 32, 1055, 1086, 1082, 1072, 1079, 1072, 1090, 1100, 32, 1076, 1080, 1072, 1075,
      1088, 1072, 1084, 1084, 1086, 1081]"

definition api_error :: "pystr \<Rightarrow> pystr" where
  \<comment> \<open>line 171\<close>
  "api_error cause =
     [9888, 65039, 32, 69, 108, 32, 112, 114, 111, 98, 108, 101, 109, 97, 32, 45, 32, 1054,
      1096, 1080, 1073, 1082, 1072, 32, 1087, 1088, 1080, 32, 1079, 1072, 1087, 1088, 1086,
      1089, 1077, 32, 1082, 32, 65, 80, 73, 58, 32] @ cause"

definition unexpected_error :: "pystr \<Rightarrow> pystr" where
  \<comment> \<open>line 174\<close>
  "unexpected_error cause =
     [9888, 65039, 32, 69, 108, 32, 112, 114, 111, 98, 108, 101, 109, 97, 32, 45, 32, 1055,
      1088, 1086, 1080, 1079, 1086, 1096, 1083, 1072, 32, 1085, 1077, 1087, 1088, 1077, 1076,
      1074, 1080, 1076, 1077, 1085, 1085, 1072, 1103, 32, 1086, 1096, 1080, 1073, 1082, 1072,
      58, 32] @ cause"

definition graph_prefix :: pystr where
  \<comment> \<open>"graph_"\<close>
  "graph_prefix = [103, 114, 97, 112, 104, 95]"

text \<open>
  \<open>sorted(xs, key=k, reverse=True)\<close>: the stable sort of Python, which for
  \<open>reverse=True\<close> reverses the list, sorts it ascending and stably, and reverses the
  result, so that elements with equal keys keep their order.
\<close>

definition sorted_reverse :: "('a \<Rightarrow> 'k::linorder) \<Rightarrow> 'a list \<Rightarrow> 'a list" where
  "sorted_reverse k xs = rev (sort_key k (rev xs))"

text \<open>Lines 138-142.\<close>

definition top_countries :: "guess list \<Rightarrow> guess list" where
  "top_countries countries = take 5 (sorted_reverse probability countries)"

text \<open>The f-string of line 146, once the name is resolved.\<close>

definition result_line :: "nat \<Rightarrow> pystr \<Rightarrow> rat \<Rightarrow> pystr" where
  "result_line i nm p =
     str_int (int i) @ [46, 32] @ nm @ [32, 45, 32] @ fmt1f (fmul100 p) @ [37]"

text \<open>Lines 145-148: \<open>enumerate(top_countries, 1)\<close>, stopping at the first exception.\<close>

fun format_results :: "env \<Rightarrow> nat \<Rightarrow> guess list \<Rightarrow> exn + pystr list" where
  "format_results e i [] = Inr []"
| "format_results e i (c # cs) =
     (case get_country_name (countries_get e) (country_id c) of
        Inl ex \<Rightarrow> Inl ex
      | Inr nm \<Rightarrow> (case format_results e (Suc i) cs of
                    Inl ex \<Rightarrow> Inl ex
                  | Inr ls \<Rightarrow> Inr (result_line i nm (probability c) # ls)))"

text \<open>Line 151.\<close>

definition make_cache_key :: "int \<Rightarrow> pystr \<Rightarrow> pystr" where
  "make_cache_key chat nm = str_int chat @ [45] @ nm"

text \<open>Line 152: \<open>request_cache[cache_key] = top_countries\<close>.\<close>

definition cache_put :: "cache \<Rightarrow> pystr \<Rightarrow> guess list \<Rightarrow> cache" where
  "cache_put c k v = c(k \<mapsto> v)"

definition handle_name :: "env \<Rightarrow> cache \<Rightarrow> message \<Rightarrow> cache \<times> event list" where
  "handle_name e c m =
     (let nm = strip (msg_text m) in
      if length nm < 2 then (c, [ReplyTo m msg_too_short])
      else
        let request = ApiGet api_url nm API_KEY 15 in
        case nationalize e nm of
          RequestException cause \<Rightarrow> (c, [request, ReplyTo m (api_error cause)])
        | OtherException cause \<Rightarrow> (c, [request, ReplyTo m (unexpected_error cause)])
        | JsonBody body \<Rightarrow>
            let countries = (case body of None \<Rightarrow> [] | Some cs \<Rightarrow> cs) in
            if countries = [] then (c, [request, ReplyTo m msg_no_prediction])
            else
              let top5 = top_countries countries in
              (case format_results e 1 top5 of
                 Inl ex \<Rightarrow> (c, [request, ReplyTo m (unexpected_error (exn_str ex))])
               | Inr result \<Rightarrow>
                   let cache_key = make_cache_key (chat_id m) nm;
                       c' = cache_put c cache_key top5;
                       btn = \<lparr>button_text = button_label,
                              callback_data = graph_prefix @ cache_key\<rparr>
                   in (c', [request,
                            SendMessage (chat_id m) (header nm @ join [10] result) [btn]])))"

section \<open>send_graph (lines 177-212)\<close>

definition msg_stale :: pystr where
  \<comment> \<open>line 191\<close>
  "msg_stale =
     [1044, 1072, 1085, 1085, 1099, 1077, 32, 1091, 1089, 1090, 1072, 1088, 1077, 1083, 1080,
      32, 1080, 1083, 1080, 32, 1086, 1090, 1089, 1091, 1090, 1089, 1090, 1074, 1091, 1102,
      1090]"

definition caption :: "pystr \<Rightarrow> pystr" where
  \<comment> \<open>line 205\<close>
  "caption nm =
     [128202, 32, 1056, 1072, 1089, 1087, 1088, 1077, 1076, 1077, 1083, 1077, 1085, 1080, 1077,
      32, 1076, 1083, 1103, 32] @ nm"

definition chart_error :: "pystr \<Rightarrow> pystr" where
  \<comment> \<open>line 210\<close>
  "chart_error cause =
     [1054, 1096, 1080, 1073, 1082, 1072, 32, 1089, 1086, 1079, 1076, 1072, 1085, 1080, 1103,
      32, 1075, 1088, 1072, 1092, 1080, 1082, 1072, 58, 32] @ cause"

text \<open>
  Lines 186-197: \<open>request_cache.get(cache_key)\<close>, the test \<open>not top_countries\<close> (true for
  None and for the empty list) and \<open>del request_cache[cache_key]\<close>.
\<close>

definition cache_take :: "cache \<Rightarrow> pystr \<Rightarrow> guess list option \<times> cache" where
  "cache_take c k =
     (case c k of
        None \<Rightarrow> (None, c)
      | Some v \<Rightarrow> if v = [] then (None, c) else (Some v, c(k := None)))"

definition send_graph :: "env \<Rightarrow> cache \<Rightarrow> callback_query \<Rightarrow> cache \<times> event list" where
  "send_graph e c call =
     (let cache_key = drop 6 (data call) in
      case cache_take c cache_key of
        (None, c') \<Rightarrow> (c', [AnswerCallbackQuery (call_id call) msg_stale True])
      | (Some top5, c') \<Rightarrow>
          (case create_bar_chart e top5 of
             Inl ex \<Rightarrow>
               (c', [AnswerCallbackQuery (call_id call) (chart_error (exn_str ex)) True])
           | Inr chart \<Rightarrow>
               (case item (split_on 45 cache_key) 1 of
                  Inl ex \<Rightarrow>
                    (c', [AnswerCallbackQuery (call_id call) (chart_error (exn_str ex)) True])
                | Inr nm \<Rightarrow>
                    (c', [SendPhoto (message_chat_id call) chart (caption nm)]))))"

section \<open>The dispatcher (lines 92, 108, 177)\<close>

text \<open>
  The bot framework hands a command message to send_welcome, any other text message to
  handle_name, and a button press to send_graph when its data starts with "graph_".
\<close>

datatype update = Command message | Text message | Callback callback_query

fun dispatch :: "env \<Rightarrow> cache \<Rightarrow> update \<Rightarrow> cache \<times> event list" where
  "dispatch e c (Command m) = send_welcome c m"
| "dispatch e c (Text m) = handle_name e c m"
| "dispatch e c (Callback call) =
     (if startswith (data call) graph_prefix then send_graph e c call else (c, []))"

text \<open>The cache after a sequence of updates, each met in its own environment.\<close>

fun run :: "(env \<times> update) list \<Rightarrow> cache \<Rightarrow> cache" where
  "run [] c = c"
| "run ((e, u) # us) c = run us (fst (dispatch e c u))"

section \<open>The invariant of the cache\<close>

text \<open>A ranked result as handle_name builds it: one to five guesses, probabilities not
  increasing.\<close>

definition well_ranked :: "guess list \<Rightarrow> bool" where
  "well_ranked v \<longleftrightarrow>
     v \<noteq> [] \<and> length v \<le> 5 \<and> sorted_wrt (\<lambda>a b. probability b \<le> probability a) v"

definition cache_inv :: "cache \<Rightarrow> bool" where
  "cache_inv c \<longleftrightarrow> (\<forall>k v. c k = Some v \<longrightarrow> well_ranked v)"

section \<open>Concrete collaborators and inputs\<close>

text \<open>The cache when the process starts (line 22).\<close>

definition request_cache0 :: cache where
  "request_cache0 = Map.empty"

text \<open>A registry with five countries; the code "KE" makes it raise a KeyError, as the
  older releases of the registry do for an unknown code.\<close>

definition example_registry :: registry where
  "example_registry code =
     (if code = [85, 83] then
        Returns (Some \<lparr>name = [85, 110, 105, 116, 101, 100, 32, 83, 116, 97, 116, 101, 115]\<rparr>)
      else if code = [71, 66] then
        Returns (Some \<lparr>name = [85, 110, 105, 116, 101, 100, 32, 75, 105, 110, 103, 100, 111, 109]\<rparr>)
      else if code = [67, 65] then Returns (Some \<lparr>name = [67, 97, 110, 97, 100, 97]\<rparr>)
      else if code = [68, 69] then Returns (Some \<lparr>name = [71, 101, 114, 109, 97, 110, 121]\<rparr>)
      else if code = [82, 85] then
        Returns (Some \<lparr>name = [82, 117, 115, 115, 105, 97, 110, 32, 70, 101, 100, 101, 114, 97,
                              116, 105, 111, 110]\<rparr>)
      else if code = [75, 69] then Raises (Exn KeyError [75, 69])
      else Returns None)"

text \<open>A registry whose data cannot be read: every lookup raises an exception that is
  neither an AttributeError nor a LookupError.\<close>

definition unreadable_registry :: registry where
  "unreadable_registry code =
     Raises (Exn OtherError
       [99, 97, 110, 110, 111, 116, 32, 114, 101, 97, 100, 32, 116, 104, 101, 32, 99, 111,
        117, 110, 116, 114, 121, 32, 100, 97, 116, 97, 98, 97, 115, 101])"

text \<open>Six guesses for "Trump": US 0.3125, GB 0.125, CA 0.125, XX 0.0625, DE 0.25,
  RU 0.015625 (all of them doubles).\<close>

definition trump_response :: "guess list" where
  "trump_response =
     [\<lparr>country_id = [85, 83], probability = 5 / 16\<rparr>,
      \<lparr>country_id = [71, 66], probability = 1 / 8\<rparr>,
      \<lparr>country_id = [67, 65], probability = 1 / 8\<rparr>,
      \<lparr>country_id = [88, 88], probability = 1 / 16\<rparr>,
      \<lparr>country_id = [68, 69], probability = 1 / 4\<rparr>,
      \<lparr>country_id = [82, 85], probability = 1 / 64\<rparr>]"

text \<open>A service that knows "Trump", answers "xx" with an empty list and "yy" without the
  field, and times out on every other name.\<close>

definition example_service :: "pystr \<Rightarrow> api_outcome" where
  "example_service nm =
     (if nm = [84, 114, 117, 109, 112] then JsonBody (Some trump_response)
      else if nm = [120, 120] then JsonBody (Some [])
      else if nm = [121, 121] then JsonBody None
      else RequestException [116, 105, 109, 101, 100, 32, 111, 117, 116])"

text \<open>A pyplot that raises a ValueError for a figure with a label that holds "$$", and
  otherwise writes some bytes.\<close>

definition example_savefig :: "figure \<Rightarrow> exn + nat list" where
  "example_savefig fig =
     (if list_ex (\<lambda>b. contains (bar_label b) [36, 36]) (bars fig)
      then Inl (Exn OtherError [109, 97, 116, 104, 116, 101, 120, 116])
      else Inr ([137, 80, 78, 71] @ map (\<lambda>b. length (bar_label b)) (bars fig)))"

definition example_env :: env where
  "example_env =
     \<lparr>countries_get = example_registry, nationalize = example_service,
      savefig_png = example_savefig\<rparr>"

definition unreadable_env :: env where
  "unreadable_env = example_env\<lparr>countries_get := unreadable_registry\<rparr>"



text \<open>Messages: " a\n" and "xx" from the private chat 7, "Trump" from the private chat 7
  and from the group chat -100.\<close>

definition short_message :: message where
  "short_message = \<lparr>chat_id = 7, message_id = 1, msg_text = [32, 97, 10]\<rparr>"

definition xx_message :: message where
  "xx_message = \<lparr>chat_id = 7, message_id = 2, msg_text = [120, 120]\<rparr>"

definition trump_message :: message where
  "trump_message = \<lparr>chat_id = 7, message_id = 3, msg_text = [32, 84, 114, 117, 109, 112, 32]\<rparr>"

definition group_message :: message where
  "group_message = \<lparr>chat_id = - 100, message_id = 4, msg_text = [84, 114, 117, 109, 112]\<rparr>"

text \<open>The keys "7-Trump" and "-100-Trump", and presses of the buttons that carry them.\<close>

definition trump_key :: pystr where
  "trump_key = [55, 45, 84, 114, 117, 109, 112]"

definition group_key :: pystr where
  "group_key = [45, 49, 48, 48, 45, 84, 114, 117, 109, 112]"

definition trump_press :: callback_query where
  "trump_press = \<lparr>call_id = [99, 98, 49], message_chat_id = 7, data = graph_prefix @ trump_key\<rparr>"

definition group_press :: callback_query where
  "group_press =
     \<lparr>call_id = [99, 98, 50], message_chat_id = - 100, data = graph_prefix @ group_key\<rparr>"

section \<open>Facts about the string functions\<close>

lemma startswith_append: "startswith (t @ post) t"
  by (simp add: startswith_def)

lemma contains_startswith: "startswith s t \<Longrightarrow> contains s t"
  by (cases s) (auto simp: startswith_def)

lemma contains_append: "contains (pre @ t @ post) t"
proof (induction pre)
  case Nil
  show ?case using contains_startswith [OF startswith_append] by simp
next
  case (Cons a pre)
  then show ?case by simp
qed

lemma unknown_country_contains: "contains (unknown_country code) code"
  unfolding unknown_country_def by (rule contains_append)

section \<open>The ranking of lines 138-142\<close>

lemma sorted_reverse_desc:
  "sorted_wrt (\<lambda>a b. k b \<le> k a) (sorted_reverse k xs)"
proof -
  have "sorted (map k (sort_key k (rev xs)))" by simp
  then have "sorted_wrt (\<lambda>a b. k a \<le> k b) (sort_key k (rev xs))"
    by (simp only: sorted_map)
  then show ?thesis
    by (simp add: sorted_reverse_def sorted_wrt_rev)
qed

lemma sorted_reverse_stable:
  "filter (\<lambda>y. k y = p) (sorted_reverse k xs) = filter (\<lambda>y. k y = p) xs"
  by (simp add: sorted_reverse_def rev_filter [symmetric] sort_key_stable)

lemma mset_sorted_reverse: "mset (sorted_reverse k xs) = mset xs"
  by (simp add: sorted_reverse_def)

lemma length_sorted_reverse: "length (sorted_reverse k xs) = length xs"
  by (simp add: sorted_reverse_def)

lemma filter_take_prefix: "\<exists>rest. filter P xs = filter P (take n xs) @ rest"
proof -
  have "filter P xs = filter P (take n xs) @ filter P (drop n xs)"
    by (metis append_take_drop_id filter_append)
  then show ?thesis by blast
qed

lemma top_countries_sorted:
  "sorted_wrt (\<lambda>a b. probability b \<le> probability a) (top_countries cs)"
  unfolding top_countries_def by (rule sorted_wrt_take [OF sorted_reverse_desc])

lemma length_top_countries: "length (top_countries cs) = min (length cs) 5"
  by (simp add: top_countries_def length_sorted_reverse min.commute)

lemma top_countries_Nil_iff: "top_countries cs = [] \<longleftrightarrow> cs = []"
  using length_top_countries [of cs] by (cases cs) auto

text \<open>
  C2. Whatever the service returns, the handler's ranking is the first five elements of a
  rearrangement of the guesses that is ordered by probability, highest first, and in
  which guesses of equal probability stand in the order of the response (so the ranking
  holds at most five guesses, and its guesses of any one probability are the first of
  the response with that probability, in their order). For the probabilities
  0.2, 0.9, 0.5, 0.9, 0.1 the ranking is second, fourth, third, first, fifth guess.
\<close>

theorem top_countries_ranked:
  "top_countries cs = take 5 (sorted_reverse probability cs)
   \<and> mset (sorted_reverse probability cs) = mset cs
   \<and> sorted_wrt (\<lambda>a b. probability b \<le> probability a) (sorted_reverse probability cs)
   \<and> (\<forall>p. filter (\<lambda>g. probability g = p) (sorted_reverse probability cs)
            = filter (\<lambda>g. probability g = p) cs)
   \<and> length (top_countries cs) = min (length cs) 5
   \<and> sorted_wrt (\<lambda>a b. probability b \<le> probability a) (top_countries cs)
   \<and> (\<forall>p. \<exists>rest. filter (\<lambda>g. probability g = p) cs
                   = filter (\<lambda>g. probability g = p) (top_countries cs) @ rest)
   \<and> top_countries
        [\<lparr>country_id = i1, probability = 2 / 10\<rparr>, \<lparr>country_id = i2, probability = 9 / 10\<rparr>,
         \<lparr>country_id = i3, probability = 5 / 10\<rparr>, \<lparr>country_id = i4, probability = 9 / 10\<rparr>,
         \<lparr>country_id = i5, probability = 1 / 10\<rparr>]
      = [\<lparr>country_id = i2, probability = 9 / 10\<rparr>, \<lparr>country_id = i4, probability = 9 / 10\<rparr>,
         \<lparr>country_id = i3, probability = 5 / 10\<rparr>, \<lparr>country_id = i1, probability = 2 / 10\<rparr>,
         \<lparr>country_id = i5, probability = 1 / 10\<rparr>]"
proof -
  have stable: "filter (\<lambda>g. probability g = p) (sorted_reverse probability cs)
            = filter (\<lambda>g. probability g = p) cs" for p
    by (rule sorted_reverse_stable)
  have pre: "\<exists>rest. filter (\<lambda>g. probability g = p) cs
                   = filter (\<lambda>g. probability g = p) (top_countries cs) @ rest" for p
    unfolding top_countries_def
    using filter_take_prefix [of "\<lambda>g. probability g = p" "sorted_reverse probability cs" 5]
    by (simp only: stable)
  have ex: "top_countries
        [\<lparr>country_id = i1, probability = 2 / 10\<rparr>, \<lparr>country_id = i2, probability = 9 / 10\<rparr>,
         \<lparr>country_id = i3, probability = 5 / 10\<rparr>, \<lparr>country_id = i4, probability = 9 / 10\<rparr>,
         \<lparr>country_id = i5, probability = 1 / 10\<rparr>]
      = [\<lparr>country_id = i2, probability = 9 / 10\<rparr>, \<lparr>country_id = i4, probability = 9 / 10\<rparr>,
         \<lparr>country_id = i3, probability = 5 / 10\<rparr>, \<lparr>country_id = i1, probability = 2 / 10\<rparr>,
         \<lparr>country_id = i5, probability = 1 / 10\<rparr>]"
    by (simp add: top_countries_def sorted_reverse_def)
  show ?thesis
    using stable pre ex
    by (simp only: mset_sorted_reverse sorted_reverse_desc length_top_countries
          top_countries_sorted top_countries_def [symmetric] simp_thms)
qed

section \<open>The country resolver\<close>

text \<open>
  C5 (as amended). get_country_name is a function of the registry's answer and the code.
  When the registry returns a record, it returns the record's name; when the registry
  returns None, or raises an AttributeError or a LookupError (KeyError and IndexError
  included), it returns the fallback string, which contains the code. An exception of
  any other class is not caught: it leaves get_country_name.
\<close>

theorem get_country_name_cases:
  "(reg code = Returns (Some c) \<longrightarrow>
      get_country_name reg code = Inr (name c))
   \<and> (reg code = Returns None \<longrightarrow>
      get_country_name reg code = Inr (unknown_country code))
   \<and> (reg code = Raises ex
        \<and> (exn_cls ex = AttributeError \<or> is_lookup_error (exn_cls ex)) \<longrightarrow>
      get_country_name reg code = Inr (unknown_country code))
   \<and> contains (unknown_country code) code
   \<and> (reg code = Raises ex
        \<and> exn_cls ex \<noteq> AttributeError \<and> \<not> is_lookup_error (exn_cls ex) \<longrightarrow>
      get_country_name reg code = Inl ex)"
  by (simp add: get_country_name_def unknown_country_contains)

theorem get_country_name_cases_witness:
  "get_country_name example_registry [85, 83]
     = Inr [85, 110, 105, 116, 101, 100, 32, 83, 116, 97, 116, 101, 115]
   \<and> get_country_name example_registry [88, 88] = Inr (unknown_country [88, 88])
   \<and> get_country_name example_registry [75, 69] = Inr (unknown_country [75, 69])
   \<and> contains (unknown_country [88, 88]) [88, 88]
   \<and> get_country_name unreadable_registry [85, 83] = Inl (Exn OtherError
       [99, 97, 110, 110, 111, 116, 32, 114, 101, 97, 100, 32, 116, 104, 101, 32, 99, 111,
        117, 110, 116, 114, 121, 32, 100, 97, 116, 97, 98, 97, 115, 101])"
  using get_country_name_cases [of example_registry "[85, 83]"
          "\<lparr>name = [85, 110, 105, 116, 101, 100, 32, 83, 116, 97, 116, 101, 115]\<rparr>"]
        get_country_name_cases [of example_registry "[88, 88]"]
        get_country_name_cases [of example_registry "[75, 69]" _ "Exn KeyError [75, 69]"]
        get_country_name_cases [of unreadable_registry "[85, 83]" _ "Exn OtherError
       [99, 97, 110, 110, 111, 116, 32, 114, 101, 97, 100, 32, 116, 104, 101, 32, 99, 111,
        117, 110, 116, 114, 121, 32, 100, 97, 116, 97, 98, 97, 115, 101]"]
  by (simp add: example_registry_def unreadable_registry_def)

text \<open>With a registry that raises another exception, get_country_name raises.\<close>

theorem get_country_name_raises:
  "get_country_name unreadable_registry [88, 88] = Inl (Exn OtherError
       [99, 97, 110, 110, 111, 116, 32, 114, 101, 97, 100, 32, 116, 104, 101, 32, 99, 111,
        117, 110, 116, 114, 121, 32, 100, 97, 116, 97, 98, 97, 115, 101])"
  by (simp add: get_country_name_def unreadable_registry_def)

section \<open>Validation and empty answers in handle_name\<close>

text \<open>
  C4. When the stripped text of a message has fewer than two characters, handle_name
  replies with the validation message and does nothing else: no request goes to the
  prediction service and the cache is the same as before.
\<close>

theorem handle_name_rejects_short:
  assumes "length (strip (msg_text m)) < 2"
  shows "handle_name e c m = (c, [ReplyTo m msg_too_short])
         \<and> filter is_api_request (snd (handle_name e c m)) = []
         \<and> fst (handle_name e c m) = c"
  using assms by (simp add: handle_name_def)

theorem handle_name_rejects_short_witness:
  "length (strip (msg_text short_message)) < 2
   \<and> handle_name example_env request_cache0 short_message
       = (request_cache0, [ReplyTo short_message msg_too_short])
   \<and> filter is_api_request (snd (handle_name example_env request_cache0 short_message)) = []"
proof -
  have short: "length (strip (msg_text short_message)) < 2"
    by (simp add: short_message_def strip_def is_space_def)
  show ?thesis
    using short handle_name_rejects_short [OF short, of example_env request_cache0]
    by simp
qed

text \<open>
  C6. When the stripped text has two characters or more and the service's answer has no
  \<open>country\<close> field or an empty one, handle_name replies with the fixed message of line
  134, without a button, and the cache is the same as before.
\<close>

theorem handle_name_no_prediction:
  assumes "2 \<le> length (strip (msg_text m))"
    and "nationalize e (strip (msg_text m)) = JsonBody body"
    and "body = None \<or> body = Some []"
  shows "handle_name e c m
           = (c, [ApiGet api_url (strip (msg_text m)) API_KEY 15, ReplyTo m msg_no_prediction])
         \<and> map reply_markup (snd (handle_name e c m)) = [None, None]
         \<and> fst (handle_name e c m) = c"
  using assms by (auto simp: handle_name_def)

theorem handle_name_no_prediction_witness:
  "2 \<le> length (strip (msg_text xx_message))
   \<and> nationalize example_env (strip (msg_text xx_message)) = JsonBody (Some [])
   \<and> handle_name example_env request_cache0 xx_message
       = (request_cache0, [ApiGet api_url [120, 120] API_KEY 15, ReplyTo xx_message msg_no_prediction])
   \<and> map reply_markup (snd (handle_name example_env request_cache0 xx_message)) = [None, None]"
proof -
  have s: "strip (msg_text xx_message) = [120, 120]"
    by (simp add: xx_message_def strip_def is_space_def)
  have len: "2 \<le> length (strip (msg_text xx_message))"
    by (simp add: s)
  have api: "nationalize example_env (strip (msg_text xx_message)) = JsonBody (Some [])"
    by (simp add: s example_env_def example_service_def)
  show ?thesis
    using len api handle_name_no_prediction [OF len api, of request_cache0]
    by (simp add: s)
qed

section \<open>The numbered lines of the reply\<close>


lemma format_results_names:
  "country_names (countries_get e) cs = Inr names \<Longrightarrow>
     format_results e i cs
       = Inr (map (\<lambda>j. result_line (i + j) (names ! j) (probability (cs ! j))) [0 ..< length cs])"
proof (induction cs arbitrary: names i)
  case Nil
  then show ?case by simp
next
  case (Cons g gs)
  from Cons.prems obtain n ns where
    n: "get_country_name (countries_get e) (country_id g) = Inr n"
    and ns: "country_names (countries_get e) gs = Inr ns"
    and names: "names = n # ns"
    by (auto split: sum.splits)
  have "format_results e (Suc i) gs
       = Inr (map (\<lambda>j. result_line (Suc i + j) (ns ! j) (probability (gs ! j))) [0 ..< length gs])"
    by (rule Cons.IH [OF ns])
  then show ?case
    by (simp add: n names map_upt_Suc del: upt_Suc)
qed

lemma format_results_raises:
  "country_names (countries_get e) cs = Inl ex \<Longrightarrow> format_results e i cs = Inl ex"
  by (induction cs arbitrary: i) (auto split: sum.splits)






text \<open>The ranking of the six guesses for "Trump", and the names of its countries.\<close>

lemma top_trump:
  "top_countries trump_response =
     [\<lparr>country_id = [85, 83], probability = 5 / 16\<rparr>,
      \<lparr>country_id = [68, 69], probability = 1 / 4\<rparr>,
      \<lparr>country_id = [71, 66], probability = 1 / 8\<rparr>,
      \<lparr>country_id = [67, 65], probability = 1 / 8\<rparr>,
      \<lparr>country_id = [88, 88], probability = 1 / 16\<rparr>]"
  by (simp add: top_countries_def sorted_reverse_def trump_response_def)

lemma names_trump:
  "country_names example_registry (top_countries trump_response) =
     Inr [[85, 110, 105, 116, 101, 100, 32, 83, 116, 97, 116, 101, 115],
          [71, 101, 114, 109, 97, 110, 121],
          [85, 110, 105, 116, 101, 100, 32, 75, 105, 110, 103, 100, 111, 109],
          [67, 97, 110, 97, 100, 97],
          unknown_country [88, 88]]"
  by (simp add: top_trump get_country_name_def example_registry_def)

lemma names_trump_env:
  "country_names (countries_get example_env) (top_countries trump_response) =
     Inr [[85, 110, 105, 116, 101, 100, 32, 83, 116, 97, 116, 101, 115],
          [71, 101, 114, 109, 97, 110, 121],
          [85, 110, 105, 116, 101, 100, 32, 75, 105, 110, 103, 100, 111, 109],
          [67, 97, 110, 97, 100, 97],
          unknown_country [88, 88]]"
  using names_trump by (simp add: example_env_def)

lemma strip_trump: "strip (msg_text trump_message) = [84, 114, 117, 109, 112]"
  by (simp add: trump_message_def strip_def is_space_def)

lemma trump_key_eq: "make_cache_key 7 [84, 114, 117, 109, 112] = trump_key"
  by (simp add: make_cache_key_def str_int_def str_nat.simps trump_key_def)



section \<open>The chart\<close>

lemma bytesio_fresh_write:
  "seek (bytesio_write \<lparr>contents = [], pos = 0\<rparr> bs) 0 = \<lparr>contents = bs, pos = 0\<rparr>"
  by (simp add: seek_def bytesio_write_def)


lemma create_bar_chart_raises:
  "country_names (countries_get e) cs = Inl ex \<Longrightarrow> create_bar_chart e cs = Inl ex"
  by (simp add: create_bar_chart_def)

lemma create_bar_chart_returns:
  "country_names (countries_get e) cs = Inr names \<Longrightarrow>
   savefig_png e (draw names (map (\<lambda>g. fmul100 (probability g)) cs)) = Inr png \<Longrightarrow>
     create_bar_chart e cs = Inr \<lparr>contents = png, pos = 0\<rparr>"
  by (simp add: create_bar_chart_def bytesio_fresh_write)



text \<open>The chart of the ranking for "Trump", and a chart that pyplot refuses.\<close>

lemma bars_trump:
  "bars (draw [[85, 110, 105, 116, 101, 100, 32, 83, 116, 97, 116, 101, 115],
               [71, 101, 114, 109, 97, 110, 121],
               [85, 110, 105, 116, 101, 100, 32, 75, 105, 110, 103, 100, 111, 109],
               [67, 97, 110, 97, 100, 97],
               unknown_country [88, 88]]
              (map (\<lambda>g. fmul100 (probability g)) (top_countries trump_response)))
     = [\<lparr>bar_label = [85, 110, 105, 116, 101, 100, 32, 83, 116, 97, 116, 101, 115],
         bar_height = fmul100 (5 / 16)\<rparr>,
        \<lparr>bar_label = [71, 101, 114, 109, 97, 110, 121], bar_height = fmul100 (1 / 4)\<rparr>,
        \<lparr>bar_label = [85, 110, 105, 116, 101, 100, 32, 75, 105, 110, 103, 100, 111, 109],
         bar_height = fmul100 (1 / 8)\<rparr>,
        \<lparr>bar_label = [67, 97, 110, 97, 100, 97], bar_height = fmul100 (1 / 8)\<rparr>,
        \<lparr>bar_label = unknown_country [88, 88], bar_height = fmul100 (1 / 16)\<rparr>]"
  by (simp add: draw_def Let_def top_trump)

lemma savefig_trump:
  "savefig_png example_env
     (draw [[85, 110, 105, 116, 101, 100, 32, 83, 116, 97, 116, 101, 115],
            [71, 101, 114, 109, 97, 110, 121],
            [85, 110, 105, 116, 101, 100, 32, 75, 105, 110, 103, 100, 111, 109],
            [67, 97, 110, 97, 100, 97],
            unknown_country [88, 88]]
           (map (\<lambda>g. fmul100 (probability g)) (top_countries trump_response)))
     = Inr [137, 80, 78, 71, 13, 7, 14, 6, 23]"
  by (simp add: example_env_def example_savefig_def bars_trump)
     (simp add: startswith_def unknown_country_def)

lemma chart_trump:
  "create_bar_chart example_env (top_countries trump_response)
     = Inr \<lparr>contents = [137, 80, 78, 71, 13, 7, 14, 6, 23], pos = 0\<rparr>"
  by (rule create_bar_chart_returns [OF names_trump_env savefig_trump])






section \<open>What the handlers do to the cache\<close>

lemma well_ranked_top_countries: "cs \<noteq> [] \<Longrightarrow> well_ranked (top_countries cs)"
  by (simp add: well_ranked_def top_countries_Nil_iff length_top_countries top_countries_sorted)

lemma handle_name_cache:
  "fst (handle_name e c m) = c
   \<or> (\<exists>k cs. cs \<noteq> [] \<and> fst (handle_name e c m) = c(k \<mapsto> top_countries cs))"
  by (auto simp: handle_name_def Let_def cache_put_def
        split: api_outcome.splits option.splits sum.splits)

lemma send_graph_cache:
  "fst (send_graph e c call) = snd (cache_take c (drop 6 (data call)))"
  by (simp add: send_graph_def Let_def split: prod.splits option.splits sum.splits)

lemma cache_take_cache:
  "snd (cache_take c k) = c \<or> snd (cache_take c k) = c(k := None)"
  by (simp add: cache_take_def split: option.splits)

lemma cache_inv_handle_name: "cache_inv c \<Longrightarrow> cache_inv (fst (handle_name e c m))"
  using handle_name_cache [of e c m]
  by (auto simp: cache_inv_def well_ranked_top_countries split: if_splits)

lemma cache_inv_send_graph: "cache_inv c \<Longrightarrow> cache_inv (fst (send_graph e c call))"
  using cache_take_cache [of c "drop 6 (data call)"]
  by (auto simp: send_graph_cache cache_inv_def split: if_splits)

lemma cache_inv_dispatch: "cache_inv c \<Longrightarrow> cache_inv (fst (dispatch e c u))"
  by (cases u) (simp_all add: send_welcome_def cache_inv_handle_name cache_inv_send_graph)

lemma cache_inv_run: "cache_inv c \<Longrightarrow> cache_inv (run us c)"
proof (induction us arbitrary: c)
  case Nil
  then show ?case by simp
next
  case (Cons eu us)
  obtain e u where eu: "eu = (e, u)" by (cases eu)
  show ?case
    unfolding eu run.simps
    by (rule Cons.IH [OF cache_inv_dispatch [OF Cons.prems]])
qed

lemma cache_inv_start: "cache_inv request_cache0"
  by (simp add: cache_inv_def request_cache0_def)

lemma cache_take_None_iff:
  "cache_inv c \<Longrightarrow> fst (cache_take c k) = None \<longleftrightarrow> c k = None"
  by (auto simp: cache_take_def cache_inv_def well_ranked_def split: option.splits)

lemma chart_error_not_stale: "chart_error cause \<noteq> msg_stale"
  by (simp add: chart_error_def msg_stale_def)

lemma send_graph_stale_iff:
  "snd (send_graph e c call) = [AnswerCallbackQuery (call_id call) msg_stale True]
     \<longleftrightarrow> fst (cache_take c (drop 6 (data call))) = None"
  by (cases "cache_take c (drop 6 (data call))")
     (auto simp: send_graph_def Let_def chart_error_not_stale split: option.splits sum.splits)

text \<open>What handle_name stores for a query that succeeds, and for "Trump" from chat 7.\<close>

lemma handle_name_stores:
  assumes "2 \<le> length (strip (msg_text m))"
    and "nationalize e (strip (msg_text m)) = JsonBody (Some cs)"
    and "cs \<noteq> []"
    and "country_names (countries_get e) (top_countries cs) = Inr names"
  shows "fst (handle_name e c m)
           = cache_put c (make_cache_key (chat_id m) (strip (msg_text m))) (top_countries cs)"
  using assms(1-3) format_results_names [OF assms(4), of "Suc 0"]
  by (simp add: handle_name_def Let_def)

lemma handle_name_trump:
  "fst (handle_name example_env request_cache0 trump_message)
     = cache_put request_cache0 trump_key (top_countries trump_response)"
proof -
  have "fst (handle_name example_env request_cache0 trump_message)
     = cache_put request_cache0
         (make_cache_key (chat_id trump_message) (strip (msg_text trump_message)))
         (top_countries trump_response)"
    by (rule handle_name_stores [OF _ _ _ names_trump_env])
       (simp_all add: strip_trump example_env_def example_service_def trump_response_def)
  moreover have "chat_id trump_message = 7"
    by (simp add: trump_message_def)
  ultimately show ?thesis
    by (simp only: strip_trump trump_key_eq)
qed

lemma drop_graph_prefix: "drop 6 (graph_prefix @ k) = k"
  by (simp add: graph_prefix_def)

section \<open>The hand-off through the cache\<close>

lemma cache_round_trip:
  "v \<noteq> [] \<Longrightarrow> c k = Some v \<Longrightarrow>
     cache_take c k = (Some v, c(k := None))
     \<and> cache_take (c(k := None)) k = (None, c(k := None))"
  by (simp add: cache_take_def)

text \<open>
  C1. Storing a ranked result and then taking its key returns the result and removes the
  entry, and taking the key again finds nothing: for every result that handle_name can
  store (the ranking of a response that is not empty, line 133), and for every entry of
  a cache that the handlers have built. When the key carried by a button press is not
  in the cache, send_graph answers the callback with the notice of line 191, sends no
  message and leaves the cache as it is.
\<close>

theorem cache_hand_off:
  assumes "cs \<noteq> []" and "c' (drop 6 (data call)) = None"
  shows "cache_take (cache_put c k (top_countries cs)) k
           = (Some (top_countries cs), (cache_put c k (top_countries cs))(k := None))
         \<and> ((cache_put c k (top_countries cs))(k := None)) k = None
         \<and> cache_take ((cache_put c k (top_countries cs))(k := None)) k
             = (None, (cache_put c k (top_countries cs))(k := None))
         \<and> (run us request_cache0 k' = Some v \<longrightarrow>
               cache_take (run us request_cache0) k' = (Some v, (run us request_cache0)(k' := None))
               \<and> cache_take ((run us request_cache0)(k' := None)) k'
                   = (None, (run us request_cache0)(k' := None)))
         \<and> send_graph e c' call = (c', [AnswerCallbackQuery (call_id call) msg_stale True])
         \<and> filter is_new_message (snd (send_graph e c' call)) = []"
proof -
  have ne: "top_countries cs \<noteq> []"
    using assms(1) by (simp add: top_countries_Nil_iff)
  have put: "cache_put c k (top_countries cs) k = Some (top_countries cs)"
    by (simp add: cache_put_def)
  have first: "cache_take (cache_put c k (top_countries cs)) k
           = (Some (top_countries cs), (cache_put c k (top_countries cs))(k := None))
         \<and> cache_take ((cache_put c k (top_countries cs))(k := None)) k
             = (None, (cache_put c k (top_countries cs))(k := None))"
    using ne put by (rule cache_round_trip)
  have reach: "run us request_cache0 k' = Some v \<longrightarrow>
               cache_take (run us request_cache0) k' = (Some v, (run us request_cache0)(k' := None))
               \<and> cache_take ((run us request_cache0)(k' := None)) k'
                   = (None, (run us request_cache0)(k' := None))"
  proof
    assume stored: "run us request_cache0 k' = Some v"
    have "cache_inv (run us request_cache0)"
      by (rule cache_inv_run [OF cache_inv_start])
    with stored have "v \<noteq> []"
      by (auto simp: cache_inv_def well_ranked_def)
    then show "cache_take (run us request_cache0) k' = (Some v, (run us request_cache0)(k' := None))
               \<and> cache_take ((run us request_cache0)(k' := None)) k'
                   = (None, (run us request_cache0)(k' := None))"
      using stored by (rule cache_round_trip)
  qed
  have stale: "send_graph e c' call = (c', [AnswerCallbackQuery (call_id call) msg_stale True])"
    using assms(2) by (simp add: send_graph_def cache_take_def)
  show ?thesis
    using first reach by (simp add: stale)
qed

theorem cache_hand_off_witness:
  "trump_response \<noteq> []
   \<and> request_cache0 (drop 6 (data trump_press)) = None
   \<and> cache_take (cache_put request_cache0 trump_key (top_countries trump_response)) trump_key
       = (Some (top_countries trump_response),
          (cache_put request_cache0 trump_key (top_countries trump_response))(trump_key := None))
   \<and> cache_take
        ((cache_put request_cache0 trump_key (top_countries trump_response))(trump_key := None))
        trump_key
       = (None,
          (cache_put request_cache0 trump_key (top_countries trump_response))(trump_key := None))
   \<and> run [(example_env, Text trump_message)] request_cache0 trump_key
       = Some (top_countries trump_response)
   \<and> cache_take (run [(example_env, Text trump_message)] request_cache0) trump_key
       = (Some (top_countries trump_response),
          (run [(example_env, Text trump_message)] request_cache0)(trump_key := None))
   \<and> cache_take ((run [(example_env, Text trump_message)] request_cache0)(trump_key := None))
        trump_key
       = (None, (run [(example_env, Text trump_message)] request_cache0)(trump_key := None))
   \<and> send_graph example_env request_cache0 trump_press
       = (request_cache0, [AnswerCallbackQuery (call_id trump_press) msg_stale True])"
proof -
  let ?c = "run [(example_env, Text trump_message)] request_cache0"
  have ne: "trump_response \<noteq> []"
    by (simp add: trump_response_def)
  have absent: "request_cache0 (drop 6 (data trump_press)) = None"
    by (simp add: request_cache0_def)
  have c: "?c = cache_put request_cache0 trump_key (top_countries trump_response)"
    by (simp add: handle_name_trump)
  have stored: "?c trump_key = Some (top_countries trump_response)"
    unfolding c by (simp add: cache_put_def)
  from ne absent stored
    cache_hand_off [where cs = trump_response and c' = request_cache0 and call = trump_press
      and c = request_cache0 and k = trump_key and e = example_env
      and us = "[(example_env, Text trump_message)]" and k' = trump_key
      and v = "top_countries trump_response"]
  show ?thesis
    by blast
qed

section \<open>The values in the cache\<close>

text \<open>
  C9. After any sequence of updates from the empty cache, every value in the cache is a
  list of one to five guesses whose probabilities do not increase. So the test of line
  188 holds exactly when the key is not in the cache: the take finds nothing exactly
  then, and send_graph answers with the notice of line 191 exactly then.
\<close>

theorem cache_values_ranked:
  "(\<forall>k v. run us request_cache0 k = Some v \<longrightarrow>
       v \<noteq> [] \<and> length v \<le> 5 \<and> sorted_wrt (\<lambda>a b. probability b \<le> probability a) v)
   \<and> (fst (cache_take (run us request_cache0) k) = None \<longleftrightarrow> run us request_cache0 k = None)
   \<and> (snd (send_graph e (run us request_cache0) call)
         = [AnswerCallbackQuery (call_id call) msg_stale True]
       \<longleftrightarrow> run us request_cache0 (drop 6 (data call)) = None)"
proof -
  have inv: "cache_inv (run us request_cache0)"
    by (rule cache_inv_run [OF cache_inv_start])
  have vals: "\<forall>k v. run us request_cache0 k = Some v \<longrightarrow>
       v \<noteq> [] \<and> length v \<le> 5 \<and> sorted_wrt (\<lambda>a b. probability b \<le> probability a) v"
    using inv by (simp add: cache_inv_def well_ranked_def)
  show ?thesis
    using vals by (simp only: send_graph_stale_iff cache_take_None_iff [OF inv] simp_thms)
qed

theorem cache_values_ranked_witness:
  "run [(example_env, Text trump_message)] request_cache0 trump_key
     = Some (top_countries trump_response)
   \<and> top_countries trump_response \<noteq> []
   \<and> length (top_countries trump_response) \<le> 5
   \<and> sorted_wrt (\<lambda>a b. probability b \<le> probability a) (top_countries trump_response)
   \<and> fst (cache_take (run [(example_env, Text trump_message)] request_cache0) trump_key) \<noteq> None
   \<and> run [(example_env, Text trump_message)] request_cache0 [120, 120] = None
   \<and> fst (cache_take (run [(example_env, Text trump_message)] request_cache0) [120, 120]) = None"
proof -
  let ?c = "run [(example_env, Text trump_message)] request_cache0"
  have c: "?c = cache_put request_cache0 trump_key (top_countries trump_response)"
    by (simp add: handle_name_trump)
  have stored: "?c trump_key = Some (top_countries trump_response)"
    unfolding c by (simp add: cache_put_def)
  have absent: "?c [120, 120] = None"
    unfolding c by (simp add: cache_put_def request_cache0_def trump_key_def)
  from cache_values_ranked [of "[(example_env, Text trump_message)]" trump_key]
    cache_values_ranked [of "[(example_env, Text trump_message)]" "[120, 120]"]
    stored absent
  show ?thesis by simp
qed

section \<open>A press whose chart cannot be made\<close>

lemma names_unreadable:
  "country_names (countries_get unreadable_env) (top_countries trump_response)
     = Inl (Exn OtherError
       [99, 97, 110, 110, 111, 116, 32, 114, 101, 97, 100, 32, 116, 104, 101, 32, 99, 111,
        117, 110, 116, 114, 121, 32, 100, 97, 116, 97, 98, 97, 115, 101])"
  by (simp add: top_trump unreadable_env_def example_env_def unreadable_registry_def
        get_country_name_def)

text \<open>
  C10. When the key of a press is in the cache and create_bar_chart raises, send_graph
  answers the callback with the error notice of line 210 and the entry is gone: it was
  deleted before the chart was attempted and nothing puts it back. The next press of the
  same button, whatever the collaborators do then, gets the notice of line 191 and no
  chart is attempted.
\<close>

theorem failed_render_consumes:
  assumes "c k = Some v" and "v \<noteq> []"
    and "create_bar_chart e v = Inl ex"
    and "data call = graph_prefix @ k" and "data call' = graph_prefix @ k"
  shows "send_graph e c call
           = (c(k := None), [AnswerCallbackQuery (call_id call) (chart_error (exn_str ex)) True])
         \<and> fst (send_graph e c call) k = None
         \<and> send_graph e' (fst (send_graph e c call)) call'
             = (c(k := None), [AnswerCallbackQuery (call_id call') msg_stale True])"
proof -
  have key: "drop 6 (data call) = k" and key': "drop 6 (data call') = k"
    by (simp_all only: assms(4,5) drop_graph_prefix)
  have first: "send_graph e c call
           = (c(k := None), [AnswerCallbackQuery (call_id call) (chart_error (exn_str ex)) True])"
    using assms(1-3) by (simp add: send_graph_def cache_take_def key)
  have second: "send_graph e' (c(k := None)) call'
             = (c(k := None), [AnswerCallbackQuery (call_id call') msg_stale True])"
    by (simp add: send_graph_def cache_take_def key')
  show ?thesis
    by (simp add: first second)
qed

theorem failed_render_consumes_witness:
  "fst (handle_name example_env request_cache0 trump_message) trump_key
     = Some (top_countries trump_response)
   \<and> top_countries trump_response \<noteq> []
   \<and> create_bar_chart unreadable_env (top_countries trump_response)
       = Inl (Exn OtherError
       [99, 97, 110, 110, 111, 116, 32, 114, 101, 97, 100, 32, 116, 104, 101, 32, 99, 111,
        117, 110, 116, 114, 121, 32, 100, 97, 116, 97, 98, 97, 115, 101])
   \<and> data trump_press = graph_prefix @ trump_key
   \<and> snd (send_graph unreadable_env
            (fst (handle_name example_env request_cache0 trump_message)) trump_press)
       = [AnswerCallbackQuery (call_id trump_press)
            (chart_error [99, 97, 110, 110, 111, 116, 32, 114, 101, 97, 100, 32, 116, 104, 101,
               32, 99, 111, 117, 110, 116, 114, 121, 32, 100, 97, 116, 97, 98, 97, 115, 101])
            True]
   \<and> fst (send_graph unreadable_env
            (fst (handle_name example_env request_cache0 trump_message)) trump_press) trump_key
       = None
   \<and> snd (send_graph example_env
            (fst (send_graph unreadable_env
               (fst (handle_name example_env request_cache0 trump_message)) trump_press))
            trump_press)
       = [AnswerCallbackQuery (call_id trump_press) msg_stale True]"
proof -
  let ?c = "fst (handle_name example_env request_cache0 trump_message)"
  let ?v = "top_countries trump_response"
  let ?ex = "Exn OtherError
       [99, 97, 110, 110, 111, 116, 32, 114, 101, 97, 100, 32, 116, 104, 101, 32, 99, 111,
        117, 110, 116, 114, 121, 32, 100, 97, 116, 97, 98, 97, 115, 101]"
  have stored: "?c trump_key = Some ?v"
    by (simp add: handle_name_trump cache_put_def)
  have ne: "?v \<noteq> []"
    by (simp add: top_trump)
  have fails: "create_bar_chart unreadable_env ?v = Inl ?ex"
    by (rule create_bar_chart_raises [OF names_unreadable])
  have press: "data trump_press = graph_prefix @ trump_key"
    by (simp add: trump_press_def)
  from stored ne fails press
    failed_render_consumes [where c = ?c and k = trump_key and v = ?v and e = unreadable_env
      and ex = ?ex and call = trump_press and call' = trump_press and e' = example_env]
  have "send_graph unreadable_env ?c trump_press
           = (?c(trump_key := None),
              [AnswerCallbackQuery (call_id trump_press) (chart_error (exn_str ?ex)) True])"
    and "fst (send_graph unreadable_env ?c trump_press) trump_key = None"
    and "send_graph example_env (fst (send_graph unreadable_env ?c trump_press)) trump_press
             = (?c(trump_key := None), [AnswerCallbackQuery (call_id trump_press) msg_stale True])"
    by blast+
  with stored ne fails press show ?thesis
    by simp
qed

section \<open>The caption of the photo\<close>

text \<open>For a chat whose id is not negative and a name without "-", the second part of
  the split cache key is the name.\<close>

lemma str_nat_digits: "c \<in> set (str_nat n) \<Longrightarrow> 48 \<le> c \<and> c \<le> 57"
proof (induction n arbitrary: c rule: str_nat.induct)
  case (1 n)
  show ?case
  proof (cases "n < 10")
    case True
    with "1.prems" show ?thesis
      by (simp add: str_nat.simps [of n])
  next
    case False
    from "1.prems" False have "c \<in> set (str_nat (n div 10)) \<or> c = 48 + n mod 10"
      by (auto simp: str_nat.simps [of n])
    then show ?thesis
    proof
      assume "c \<in> set (str_nat (n div 10))"
      with "1.IH" [OF False] show ?thesis .
    next
      assume c: "c = 48 + n mod 10"
      have "n mod 10 < 10" by simp
      with c show ?thesis by linarith
    qed
  qed
qed

lemma split_on_no_separator: "sep \<notin> set s \<Longrightarrow> split_on sep s = [s]"
  by (induction s) auto

lemma split_on_first_separator:
  "sep \<notin> set a \<Longrightarrow> split_on sep (a @ sep # b) = a # split_on sep b"
  by (induction a) auto

lemma cache_key_name:
  assumes "0 \<le> chat" and "45 \<notin> set nm"
  shows "item (split_on 45 (make_cache_key chat nm)) 1 = Inr nm"
proof -
  have "45 \<notin> set (str_nat (nat chat))"
    using str_nat_digits [of 45 "nat chat"] by auto
  then have "split_on 45 (make_cache_key chat nm) = [str_nat (nat chat), nm]"
    using assms by (simp add: make_cache_key_def str_int_def split_on_first_separator
        split_on_no_separator)
  then show ?thesis
    by (simp add: item_def)
qed

lemma handle_name_sends:
  assumes "2 \<le> length (strip (msg_text m))"
    and "nationalize e (strip (msg_text m)) = JsonBody (Some cs)"
    and "cs \<noteq> []"
    and "country_names (countries_get e) (top_countries cs) = Inr names"
  shows "map reply_markup (snd (handle_name e c m))
           = [None, Some [\<lparr>button_text = button_label,
                callback_data = graph_prefix @ make_cache_key (chat_id m) (strip (msg_text m))\<rparr>]]"
  using assms(1-3) format_results_names [OF assms(4), of "Suc 0"]
  by (simp add: handle_name_def Let_def)

lemma strip_group: "strip (msg_text group_message) = [84, 114, 117, 109, 112]"
  by (simp add: group_message_def strip_def is_space_def)

lemma group_key_eq: "make_cache_key (- 100) [84, 114, 117, 109, 112] = group_key"
  by (simp add: make_cache_key_def str_int_def str_nat.simps group_key_def)

lemma split_group_key: "item (split_on 45 group_key) (Suc 0) = Inr [49, 48, 48]"
  by (simp add: group_key_def item_def)

text \<open>
  C7, evaluated for a group chat. Group chats have negative ids. For "Trump" sent in the
  chat -100 the handler's button carries "graph_-100-Trump"; a press of it sends the
  chart with the caption of line 205 built from "100", the second part of the key
  "-100-Trump" split on "-", and "Trump" does not occur in that caption.
\<close>

theorem caption_in_group_chat:
  "map reply_markup (snd (handle_name example_env request_cache0 group_message))
     = [None, Some [\<lparr>button_text = button_label, callback_data = data group_press\<rparr>]]
   \<and> (\<exists>chart. snd (send_graph example_env
                     (fst (handle_name example_env request_cache0 group_message)) group_press)
                = [SendPhoto (- 100) chart (caption [49, 48, 48])])
   \<and> \<not> contains (caption [49, 48, 48]) [84, 114, 117, 109, 112]"
proof -
  have len: "2 \<le> length (strip (msg_text group_message))"
    by (simp add: strip_group)
  have api: "nationalize example_env (strip (msg_text group_message)) = JsonBody (Some trump_response)"
    by (simp add: strip_group example_env_def example_service_def)
  have ne: "trump_response \<noteq> []"
    by (simp add: trump_response_def)
  have chat: "chat_id group_message = - 100"
    by (simp add: group_message_def)
  have press: "data group_press = graph_prefix @ group_key"
    by (simp add: group_press_def)
  have "map reply_markup (snd (handle_name example_env request_cache0 group_message))
     = [None, Some [\<lparr>button_text = button_label,
          callback_data = graph_prefix
            @ make_cache_key (chat_id group_message) (strip (msg_text group_message))\<rparr>]]"
    by (rule handle_name_sends [OF len api ne names_trump_env])
  then have button: "map reply_markup (snd (handle_name example_env request_cache0 group_message))
     = [None, Some [\<lparr>button_text = button_label, callback_data = data group_press\<rparr>]]"
    by (simp only: strip_group chat group_key_eq press)
  have "fst (handle_name example_env request_cache0 group_message)
     = cache_put request_cache0
         (make_cache_key (chat_id group_message) (strip (msg_text group_message)))
         (top_countries trump_response)"
    by (rule handle_name_stores [OF len api ne names_trump_env])
  then have c: "fst (handle_name example_env request_cache0 group_message)
     = cache_put request_cache0 group_key (top_countries trump_response)"
    by (simp only: strip_group chat group_key_eq)
  have chatp: "message_chat_id group_press = - 100"
    by (simp add: group_press_def)
  have k: "drop 6 (data group_press) = group_key"
    by (simp only: press drop_graph_prefix)
  have take: "cache_take (cache_put request_cache0 group_key (top_countries trump_response)) group_key
     = (Some (top_countries trump_response),
        (cache_put request_cache0 group_key (top_countries trump_response))(group_key := None))"
    by (simp add: cache_take_def cache_put_def top_trump)
  have photo: "\<exists>chart. snd (send_graph example_env
                     (fst (handle_name example_env request_cache0 group_message)) group_press)
                = [SendPhoto (- 100) chart (caption [49, 48, 48])]"
    unfolding c
    by (simp add: send_graph_def k take
          chart_trump split_group_key chatp)
  have other: "\<not> contains (caption [49, 48, 48]) [84, 114, 117, 109, 112]"
    by (simp add: caption_def startswith_def)
  from button photo other show ?thesis by blast
qed

end
